theory Spec2Isabelle
  imports Main "HOL-Library.Word" "HOL-Library.AList"
begin

unbundle bit_operations_syntax

section \<open>Risk aggregation (package scanner)\<close>

subsection \<open>Result records (package models)\<close>

text \<open>
  The scanner fills in a \<open>ScanResult\<close> that maps tool names to \<open>ToolResult\<close>s.
  The Go map \<open>Tools\<close> is an association list that is only written through
  \<open>AList.update\<close> (one binding per key); the loop over it in \<open>calculateScore\<close> does
  not depend on the iteration order. Go's \<open>int\<close> is \<open>int\<close> (no function of the scanner
  computes with these fields), a pointer that may be nil is an option, and the map
  \<open>Breakdown\<close> is an association list. The fields \<open>Status\<close>, \<open>Score\<close> and \<open>Findings\<close> of
  \<open>ScanResult\<close> are \<open>ScanStatus\<close>, \<open>ScanScore\<close> and \<open>ScanFindings\<close>, and the field \<open>Total\<close> of
  \<open>MalcontentFindings\<close> is \<open>MalcontentTotal\<close>. The time stamps \<open>StartedAt\<close> and
  \<open>FinishedAt\<close> are left out.
\<close>

record ToolResult =
  Name :: string
  Version :: string
  Status :: string
  Error :: string
  OutputFile :: string

record Score =
  Total :: int
  Grade :: string
  Breakdown :: "(string \<times> int) list"

record VulnCounts =
  Critical :: int
  High :: int
  Medium :: int
  Low :: int

record TrivyFindings =
  Vulnerabilities :: VulnCounts
  Secrets :: int
  Misconfigs :: int

record MalcontentFindings =
  MalcontentTotal :: int
  HighRisk :: int
  MediumRisk :: int
  LowRisk :: int
  Capabilities :: "string list"

record MagikaFindings =
  TotalFiles :: int
  SuspiciousTypes :: int
  MismatchedExtension :: int

record Findings =
  Trivy :: "TrivyFindings option"
  Malcontent :: "MalcontentFindings option"
  Magika :: "MagikaFindings option"

record ScanResult =
  ImageRef :: string
  Platform :: string
  ImageDigest :: string
  ScanStatus :: string
  Partial :: bool
  ScanScore :: Score
  Tools :: "(string \<times> ToolResult) list"
  ScanFindings :: Findings

subsection \<open>calculateGrade and calculateScore\<close>

definition calculateGrade :: "int \<Rightarrow> string" where
  "calculateGrade score =
     (if score \<le> 10 then ''A''
      else if score \<le> 30 then ''B''
      else if score \<le> 60 then ''C''
      else if score \<le> 100 then ''D''
      else ''F'')"

text \<open>
  The loop over \<open>s.results.Tools\<close>: the state is \<open>(toolsOk, toolsFailed, Partial)\<close>.
\<close>

fun count_tools :: "(string \<times> ToolResult) list \<Rightarrow> nat \<times> nat \<times> bool \<Rightarrow> nat \<times> nat \<times> bool" where
  "count_tools [] acc = acc"
| "count_tools ((name, tool) # rest) (toolsOk, toolsFailed, partial) =
     (if Status tool = ''ok'' then count_tools rest (toolsOk + 1, toolsFailed, partial)
      else if Status tool = ''failed'' \<or> Status tool = ''timeout''
        then count_tools rest (toolsOk, toolsFailed + 1, True)
      else count_tools rest (toolsOk, toolsFailed, partial))"

definition calculateScore :: "ScanResult \<Rightarrow> ScanResult" where
  "calculateScore r =
     (let score = (0::int);
          r1 = r\<lparr>ScanScore := \<lparr>Total = score, Grade = calculateGrade score, Breakdown = []\<rparr>\<rparr>;
          (toolsOk, toolsFailed, partial) = count_tools (Tools r1) (0, 0, Partial r1);
          r2 = r1\<lparr>Partial := partial\<rparr>;
          enabledTools = length (Tools r2)
      in if enabledTools > 0 \<and> toolsOk = 0 then r2\<lparr>ScanStatus := ''ERROR''\<rparr>
         else if score > 100 then r2\<lparr>ScanStatus := ''FAIL''\<rparr>
         else if score > 30 \<or> Partial r2 then r2\<lparr>ScanStatus := ''WARN''\<rparr>
         else r2\<lparr>ScanStatus := ''PASS''\<rparr>)"

definition ExitCode :: "ScanResult \<Rightarrow> int" where
  "ExitCode r =
     (if ScanStatus r = ''PASS'' then 0
      else if ScanStatus r = ''WARN'' then 1
      else if ScanStatus r = ''FAIL'' then 2
      else if ScanStatus r = ''ERROR'' then 3
      else 1)"

text \<open>
  The scoring table of the specification and of the README, as a function of findings:
  10 per critical vulnerability, 5 per high, 2 per medium, 1 per low, 20 per secret,
  15 per high-risk and 7 per medium-risk capability, 5 per suspicious file type.
\<close>

definition table_score :: "Findings \<Rightarrow> int" where
  "table_score f =
     (case Trivy f of
        None \<Rightarrow> 0
      | Some t \<Rightarrow>
          10 * Critical (Vulnerabilities t) + 5 * High (Vulnerabilities t)
          + 2 * Medium (Vulnerabilities t) + Low (Vulnerabilities t) + 20 * Secrets t)
     + (case Malcontent f of None \<Rightarrow> 0 | Some m \<Rightarrow> 15 * HighRisk m + 7 * MediumRisk m)
     + (case Magika f of None \<Rightarrow> 0 | Some g \<Rightarrow> 5 * SuspiciousTypes g)"


section \<open>Path names (packages strings and path/filepath, Unix)\<close>

text \<open>
  Go strings are byte sequences; here they are \<open>string\<close>s. The path separator is the
  slash and there are no volume names.
\<close>

definition HasPrefix :: "string \<Rightarrow> string \<Rightarrow> bool" where
  "HasPrefix s pre = (take (length pre) s = pre)"

definition TrimPrefix :: "string \<Rightarrow> string \<Rightarrow> string" where
  "TrimPrefix s pre = (if HasPrefix s pre then drop (length pre) s else s)"

fun Contains :: "string \<Rightarrow> string \<Rightarrow> bool" where
  "Contains [] sub = (sub = [])"
| "Contains (c # s) sub = (HasPrefix (c # s) sub \<or> Contains s sub)"

text \<open>\<open>splitOn c s\<close> cuts \<open>s\<close> at every \<open>c\<close>; the pieces may be empty.\<close>

fun splitOn :: "char \<Rightarrow> string \<Rightarrow> string list" where
  "splitOn c [] = [[]]"
| "splitOn c (x # xs) =
     (if x = c then [] # splitOn c xs
      else (case splitOn c xs of [] \<Rightarrow> [[x]] | y # ys \<Rightarrow> (x # y) # ys))"

text \<open>The path name elements of a path: the non-empty pieces between slashes.\<close>

definition elements :: "string \<Rightarrow> string list" where
  "elements path = filter (\<lambda>e. e \<noteq> []) (splitOn CHR ''/'' path)"

text \<open>\<open>strings.Join(elems, "/")\<close>.\<close>

fun join_sep :: "string list \<Rightarrow> string" where
  "join_sep [] = []"
| "join_sep [e] = e"
| "join_sep (e # es) = e @ CHR ''/'' # join_sep es"

text \<open>
  \<open>filepath.Clean\<close> works through the elements from left to right with an output
  buffer, here the stack \<open>out\<close> (last element written first): a \<open>.\<close> element is
  dropped; a \<open>..\<close> element removes the last element written unless there is none or it
  is a \<open>..\<close> itself, in which case it is dropped in a rooted path and written otherwise;
  any other element is written. The result is the buffer joined by slashes, after the
  leading slash of a rooted path; an empty result is \<open>.\<close>.
\<close>

fun clean_elements :: "bool \<Rightarrow> string list \<Rightarrow> string list \<Rightarrow> string list" where
  "clean_elements rooted out [] = rev out"
| "clean_elements rooted out (e # es) =
     (if e = ''.'' then clean_elements rooted out es
      else if e = ''..'' then
        (if out \<noteq> [] \<and> hd out \<noteq> ''..'' then clean_elements rooted (tl out) es
         else if \<not> rooted then clean_elements rooted (''..'' # out) es
         else clean_elements rooted out es)
      else clean_elements rooted (e # out) es)"

definition IsAbs :: "string \<Rightarrow> bool" where
  "IsAbs path = HasPrefix path ''/''"

definition Clean :: "string \<Rightarrow> string" where
  "Clean path =
     (if path = [] then ''.''
      else
        (let rooted = IsAbs path;
             out = clean_elements rooted [] (elements path)
         in if rooted then CHR ''/'' # join_sep out
            else if out = [] then ''.''
            else join_sep out))"

text \<open>
  \<open>filepath.Join\<close>: leading empty elements are ignored, the rest is joined by slashes
  and cleaned; with no non-empty element the result is the empty string.
\<close>

definition Join :: "string list \<Rightarrow> string" where
  "Join elem =
     (case dropWhile (\<lambda>e. e = []) elem of
        [] \<Rightarrow> []
      | es \<Rightarrow> Clean (join_sep es))"

text \<open>\<open>filepath.Dir\<close>: everything up to and including the last slash, cleaned.\<close>

definition Dir :: "string \<Rightarrow> string" where
  "Dir path = Clean (rev (dropWhile (\<lambda>c. c \<noteq> CHR ''/'') (rev path)))"


section \<open>The host file system (package os)\<close>

text \<open>
  The file system is a store from clean absolute path names to nodes, together with
  the process's umask and working directory. Only what the extractor can observe is
  modelled: a node is a directory or a regular file with its permission bits, and an
  operation fails where the shape of the tree forces it to. Access rights, quotas and
  device errors are not modelled.
\<close>

type_synonym byte = "8 word"
type_synonym FileMode = "32 word"

text \<open>Permission masks, written in octal in the source.\<close>

abbreviation mode_0777 :: FileMode where "mode_0777 \<equiv> 511"
abbreviation mode_0755 :: FileMode where "mode_0755 \<equiv> 493"
abbreviation mode_0600 :: FileMode where "mode_0600 \<equiv> 384"
abbreviation mode_0500 :: FileMode where "mode_0500 \<equiv> 320"
abbreviation mode_0400 :: FileMode where "mode_0400 \<equiv> 256"

datatype node = Directory (perm: FileMode) | RegularFile (content: "byte list") (perm: FileMode)

record host =
  files :: "string \<rightharpoonup> node"
  umask :: FileMode
  cwd :: "string option"

datatype errno = ENOENT | EEXIST | ENOTDIR | EISDIR

definition is_dir :: "host \<Rightarrow> string \<Rightarrow> bool" where
  "is_dir h p = (case files h p of Some (Directory _) \<Rightarrow> True | _ \<Rightarrow> False)"

definition Getwd :: "host \<Rightarrow> string option" where
  "Getwd h = (case cwd h of None \<Rightarrow> None | Some wd \<Rightarrow> if IsAbs wd then Some wd else None)"

definition Abs :: "host \<Rightarrow> string \<Rightarrow> errno + string" where
  "Abs h path =
     (if IsAbs path then Inr (Clean path)
      else (case Getwd h of None \<Rightarrow> Inl ENOENT | Some wd \<Rightarrow> Inr (Join [wd, path])))"

definition Mkdir :: "host \<Rightarrow> string \<Rightarrow> FileMode \<Rightarrow> host \<times> errno option" where
  "Mkdir h path prm =
     (case files h path of
        Some _ \<Rightarrow> (h, Some EEXIST)
      | None \<Rightarrow>
          (case files h (Dir path) of
             None \<Rightarrow> (h, Some ENOENT)
           | Some (RegularFile _ _) \<Rightarrow> (h, Some ENOTDIR)
           | Some (Directory _) \<Rightarrow>
               (h\<lparr>files := (files h)(path \<mapsto> Directory (prm AND NOT (umask h)))\<rparr>, None)))"

text \<open>
  \<open>os.MkdirAll\<close> looks the path up first: a directory is success, anything else is
  \<open>ENOTDIR\<close>. Otherwise it strips trailing slashes and the last element, calls itself
  on that parent when it is not empty, and then makes the directory.
\<close>

definition mkdirall_parent :: "string \<Rightarrow> string" where
  "mkdirall_parent path =
     rev (drop 1 (dropWhile (\<lambda>c. c \<noteq> CHR ''/'') (dropWhile (\<lambda>c. c = CHR ''/'') (rev path))))"

function MkdirAll :: "host \<Rightarrow> string \<Rightarrow> FileMode \<Rightarrow> host \<times> errno option" where
  "MkdirAll h path prm =
     (case files h path of
        Some (Directory _) \<Rightarrow> (h, None)
      | Some (RegularFile _ _) \<Rightarrow> (h, Some ENOTDIR)
      | None \<Rightarrow>
          (if mkdirall_parent path \<noteq> [] then
             (case MkdirAll h (mkdirall_parent path) prm of
                (h1, Some e) \<Rightarrow> (h1, Some e)
              | (h1, None) \<Rightarrow> Mkdir h1 path prm)
           else Mkdir h path prm))"
  by pat_completeness auto

termination MkdirAll
proof (relation "measure (\<lambda>(h, path, prm). length path)")
  show "wf (measure (\<lambda>(h, path, prm). length path))"
    by simp
next
  fix h :: host and path :: string and prm :: FileMode
  assume ne: "mkdirall_parent path \<noteq> []"
  define y where "y = dropWhile (\<lambda>c. c = CHR ''/'') (rev path)"
  define x where "x = dropWhile (\<lambda>c. c \<noteq> CHR ''/'') y"
  have p: "mkdirall_parent path = rev (drop 1 x)"
    by (simp add: mkdirall_parent_def x_def y_def)
  have "length y \<le> length (rev path)"
    unfolding y_def by (rule length_dropWhile_le)
  moreover have "length x \<le> length y"
    unfolding x_def by (rule length_dropWhile_le)
  moreover have "x \<noteq> []"
    using ne p by (cases x) simp_all
  then have "length (drop 1 x) < length x"
    by (cases x) simp_all
  ultimately have "length (mkdirall_parent path) < length path"
    by (simp add: p)
  then show "((h, mkdirall_parent path, prm), (h, path, prm))
               \<in> measure (\<lambda>(h, path, prm). length path)"
    by simp
qed

declare MkdirAll.simps [simp del]

text \<open>
  \<open>os.OpenFile(path, O_CREATE|O_WRONLY|O_TRUNC, prm)\<close>: an existing regular file is
  emptied and keeps its mode, a new one is created in an existing directory.
\<close>

definition OpenFile :: "host \<Rightarrow> string \<Rightarrow> FileMode \<Rightarrow> host \<times> errno option" where
  "OpenFile h path prm =
     (case files h path of
        Some (Directory _) \<Rightarrow> (h, Some EISDIR)
      | Some (RegularFile _ m) \<Rightarrow> (h\<lparr>files := (files h)(path \<mapsto> RegularFile [] m)\<rparr>, None)
      | None \<Rightarrow>
          (case files h (Dir path) of
             None \<Rightarrow> (h, Some ENOENT)
           | Some (RegularFile _ _) \<Rightarrow> (h, Some ENOTDIR)
           | Some (Directory _) \<Rightarrow>
               (h\<lparr>files := (files h)(path \<mapsto> RegularFile [] (prm AND NOT (umask h)))\<rparr>, None)))"

text \<open>\<open>os.Chmod\<close> sets the nine permission bits.\<close>

definition Chmod :: "host \<Rightarrow> string \<Rightarrow> FileMode \<Rightarrow> host \<times> errno option" where
  "Chmod h path m =
     (case files h path of
        None \<Rightarrow> (h, Some ENOENT)
      | Some (Directory _) \<Rightarrow> (h\<lparr>files := (files h)(path \<mapsto> Directory (m AND mode_0777))\<rparr>, None)
      | Some (RegularFile c _) \<Rightarrow>
          (h\<lparr>files := (files h)(path \<mapsto> RegularFile c (m AND mode_0777))\<rparr>, None))"

section \<open>The tar stream (package archive/tar)\<close>

text \<open>
  What \<open>tar.Reader\<close> delivers: a sequence of entries, each a header and a body, that
  ends with \<open>io.EOF\<close>, or breaks off where the stream is corrupt or truncated. A body
  is the bytes that can be read and, when the stream breaks off inside it, the error
  that follows them. \<open>Next\<close> skips what is left of the current body first, so an error
  in a body that was not read to its end comes back from the following \<open>Next\<close>.
\<close>

datatype read_error = ErrUnexpectedEOF | ErrHeader

record Header =
  Name :: string
  Linkname :: string
  Typeflag :: byte
  Mode :: "64 word"

record body =
  bytes :: "byte list"
  failure :: "read_error option"

datatype item = Entry Header body | Corrupt read_error

definition TypeReg :: byte where "TypeReg = 48"
definition TypeLink :: byte where "TypeLink = 49"
definition TypeSymlink :: byte where "TypeSymlink = 50"
definition TypeChar :: byte where "TypeChar = 51"
definition TypeBlock :: byte where "TypeBlock = 52"
definition TypeDir :: byte where "TypeDir = 53"
definition TypeFifo :: byte where "TypeFifo = 54"


section \<open>Safe extraction (package extractor)\<close>

datatype cause = Errno errno | ReadError read_error

datatype error =
    FailedToResolveDestination errno
  | FailedToReadTarHeader read_error
  | FailedToCreateDirectory string errno
  | FailedToExtractFile string cause

subsection \<open>sanitizePath\<close>

definition sanitizePath :: "string \<Rightarrow> string \<Rightarrow> string + string" where
  "sanitizePath name dstDir =
     (let clean = Clean name;
          clean = TrimPrefix clean ''/'';
          clean = TrimPrefix clean ''./''
      in if Contains clean ''..'' then Inl ''path traversal detected''
         else
           (let fullPath = Join [dstDir, clean]
            in if \<not> HasPrefix fullPath (dstDir @ ''/'') \<and> fullPath \<noteq> dstDir
               then Inl ''path escapes destination directory''
               else Inr fullPath))"

subsection \<open>extractFile\<close>

definition maxFileSize :: nat where
  "maxFileSize = 10 * 1024 * 1024 * 1024"

text \<open>
  \<open>io.Copy(f, io.LimitReader(tr, n))\<close> for the file opened at \<open>path\<close>: the first \<open>n\<close>
  bytes of the body are written; the body's error is met only when the body ends
  before the limit.
\<close>

definition Copy :: "host \<Rightarrow> string \<Rightarrow> body \<Rightarrow> nat \<Rightarrow> host \<times> read_error option" where
  "Copy h path b n =
     (let h' = (case files h path of
                  Some (RegularFile _ m) \<Rightarrow>
                    h\<lparr>files := (files h)(path \<mapsto> RegularFile (take n (bytes b)) m)\<rparr>
                | _ \<Rightarrow> h)
      in (h', if length (bytes b) < n then failure b else None))"

definition extractFile :: "host \<Rightarrow> body \<Rightarrow> string \<Rightarrow> 64 word \<Rightarrow> host \<times> cause option" where
  "extractFile h tr path mode =
     (case MkdirAll h (Dir path) mode_0755 of
        (h1, Some e) \<Rightarrow> (h1, Some (Errno e))
      | (h1, None) \<Rightarrow>
          (case OpenFile h1 path mode_0600 of
             (h2, Some e) \<Rightarrow> (h2, Some (Errno e))
           | (h2, None) \<Rightarrow>
               (case Copy h2 path tr maxFileSize of
                  (h3, Some e) \<Rightarrow> (h3, Some (ReadError e))
                | (h3, None) \<Rightarrow>
                    (let finalMode = ucast mode AND mode_0755
                     in case Chmod h3 path finalMode of
                          (h4, Some e) \<Rightarrow> (h4, Some (Errno e))
                        | (h4, None) \<Rightarrow> (h4, None)))))"

subsection \<open>SafeExtract\<close>

text \<open>
  The loop over the stream. \<open>pending\<close> is the error, if any, left in the part of the
  previous body that was not read; the next call of \<open>tr.Next\<close> returns it. The
  messages written to standard error are left out.
\<close>

fun extract_entries :: "string \<Rightarrow> host \<Rightarrow> read_error option \<Rightarrow> item list \<Rightarrow> host \<times> error option" where
  "extract_entries dstDir h (Some e) r = (h, Some (FailedToReadTarHeader e))"
| "extract_entries dstDir h None [] = (h, None)"
| "extract_entries dstDir h None (Corrupt e # r) = (h, Some (FailedToReadTarHeader e))"
| "extract_entries dstDir h None (Entry header tr # r) =
     (case sanitizePath (Name header) dstDir of
        Inl err \<Rightarrow> extract_entries dstDir h (failure tr) r
      | Inr cleanPath \<Rightarrow>
          if Typeflag header = TypeSymlink then extract_entries dstDir h (failure tr) r
          else if Typeflag header = TypeLink then extract_entries dstDir h (failure tr) r
          else if Typeflag header = TypeChar \<or> Typeflag header = TypeBlock
            then extract_entries dstDir h (failure tr) r
          else if Typeflag header = TypeFifo then extract_entries dstDir h (failure tr) r
          else if Typeflag header = TypeDir then
            (case MkdirAll h cleanPath mode_0755 of
               (h1, Some e) \<Rightarrow> (h1, Some (FailedToCreateDirectory cleanPath e))
             | (h1, None) \<Rightarrow> extract_entries dstDir h1 (failure tr) r)
          else if Typeflag header = TypeReg then
            (case extractFile h tr cleanPath (Mode header) of
               (h1, Some e) \<Rightarrow> (h1, Some (FailedToExtractFile cleanPath e))
             | (h1, None) \<Rightarrow> extract_entries dstDir h1 (failure tr) r)
          else extract_entries dstDir h (failure tr) r)"

definition SafeExtract :: "host \<Rightarrow> item list \<Rightarrow> string \<Rightarrow> host \<times> error option" where
  "SafeExtract h r dstDir =
     (case Abs h dstDir of
        Inl e \<Rightarrow> (h, Some (FailedToResolveDestination e))
      | Inr dstDir' \<Rightarrow> extract_entries dstDir' h None r)"

subsection \<open>makeReadableForScan (package scanner)\<close>

text \<open>
  The operating system resolves the root it is given, so the walk starts at the clean
  absolute name of the root; a root that cannot be resolved or does not exist is an
  error of the walk, which the callback ignores. The walk visits the root and everything
  below it (the store is taken to be well formed: what lies below the root is reached
  through directories); a directory gets owner read and execute, a regular file owner
  read, and a node whose bits are already set is left alone. Errors are ignored.
\<close>

definition walked :: "string \<Rightarrow> string \<Rightarrow> bool" where
  "walked root p = (p = root \<or> HasPrefix p (if root = ''/'' then root else root @ ''/''))"

definition Perm :: "FileMode \<Rightarrow> FileMode" where
  "Perm m = m AND mode_0777"

definition make_readable :: "node \<Rightarrow> node" where
  "make_readable n =
     (case n of
        Directory m \<Rightarrow>
          (let perm = Perm m; newPerm = perm OR mode_0500
           in if newPerm \<noteq> perm then Directory newPerm else n)
      | RegularFile c m \<Rightarrow>
          (let perm = Perm m; newPerm = perm OR mode_0400
           in if newPerm \<noteq> perm then RegularFile c newPerm else n))"

definition makeReadableForScan :: "host \<Rightarrow> string \<Rightarrow> host" where
  "makeReadableForScan h root =
     (case Abs h root of
        Inl e \<Rightarrow> h
      | Inr r \<Rightarrow>
          (case files h r of
             None \<Rightarrow> h
           | Some _ \<Rightarrow>
               h\<lparr>files := (\<lambda>p. case files h p of
                                  None \<Rightarrow> None
                                | Some n \<Rightarrow>
                                    if walked r p then Some (make_readable n) else Some n)\<rparr>))"


section \<open>The scan pipeline (package scanner)\<close>

text \<open>
  \<open>Run\<close> talks to the outside world: it makes directories, runs docker and the three
  tools. The outcome of each of these steps is an input of the model, collected in a
  \<open>world\<close>; the version probes and the docker outputs are taken after
  \<open>strings.TrimSpace\<close>. The three tool runners run concurrently in the source; each
  stores one result under its own key while holding the mutex, so the map they leave
  behind is the one obtained by running them one after the other.
\<close>

record ScanOptions =
  OptImageRef :: string
  OptPlatform :: string
  OutputFormat :: string
  ReportDir :: string
  TimeoutMins :: int
  SkipTrivy :: bool
  SkipMalcontent :: bool
  SkipMagika :: bool
  Quiet :: bool
  Verbose :: bool

text \<open>
  One run of an external tool: whether the context's deadline was exceeded, the error
  of the command if any, its combined output, and the version the probe reports. What
  the tools wrote to their output files is the field \<open>reported\<close> of the world, in the
  shape of \<open>Findings\<close>; no function of the scanner reads an output file.
\<close>

record tool_run =
  deadlineExceeded :: bool
  runErr :: "string option"
  combinedOutput :: string
  toolVersion :: string

record world =
  mkdirTemp :: "errno + string"
  mkdirRootfs :: "errno option"
  dockerPull :: "string option"
  dockerInspect :: "string + string"
  dockerCreate :: "string + string"
  stdoutPipe :: "string option"
  exportStart :: "string option"
  exportStream :: "item list"
  exportWait :: "string option"
  extractHost :: host
  trivy :: tool_run
  malcontent :: tool_run
  magikaCreate :: "errno option"
  magika :: tool_run
  reported :: Findings
  mkdirReport :: "errno option"

datatype pull_error =
    DockerPullFailed string
  | DockerInspectFailed string
  | DockerCreateFailed string
  | FailedToCreatePipe string
  | DockerExportFailedToStart string
  | SafeExtractionFailed error
  | DockerExportFailed string

datatype run_error =
    FailedToCreateWorkDirectory errno
  | FailedToCreateRootfsDirectory errno
  | FailedToPullExtract pull_error
  | FailedToGenerateReport errno
  | ScanCompletedWithFAIL int

definition New :: "ScanOptions \<Rightarrow> ScanOptions \<times> ScanResult" where
  "New opts =
     (let opts = (if ReportDir opts = [] then opts\<lparr>ReportDir := ''./vnaiscan-reports''\<rparr> else opts)
      in (opts,
          \<lparr>ImageRef = OptImageRef opts, Platform = OptPlatform opts, ImageDigest = [],
           ScanStatus = [], Partial = False,
           ScanScore = \<lparr>Total = 0, Grade = [], Breakdown = []\<rparr>, Tools = [],
           ScanFindings = \<lparr>Trivy = None, Malcontent = None, Magika = None\<rparr>\<rparr>))"

definition pullAndExtract :: "world \<Rightarrow> string \<Rightarrow> ScanResult \<Rightarrow> ScanResult \<times> pull_error option" where
  "pullAndExtract w rootfsDir res =
     (case dockerPull w of
        Some e \<Rightarrow> (res, Some (DockerPullFailed e))
      | None \<Rightarrow>
     (case dockerInspect w of
        Inl e \<Rightarrow> (res, Some (DockerInspectFailed e))
      | Inr digestOut \<Rightarrow>
     (let res = res\<lparr>ImageDigest := digestOut\<rparr>
      in case dockerCreate w of
        Inl e \<Rightarrow> (res, Some (DockerCreateFailed e))
      | Inr containerID \<Rightarrow>
     (case stdoutPipe w of
        Some e \<Rightarrow> (res, Some (FailedToCreatePipe e))
      | None \<Rightarrow>
     (case exportStart w of
        Some e \<Rightarrow> (res, Some (DockerExportFailedToStart e))
      | None \<Rightarrow>
     (case SafeExtract (extractHost w) (exportStream w) rootfsDir of
        (h, Some e) \<Rightarrow> (res, Some (SafeExtractionFailed e))
      | (h, None) \<Rightarrow>
     (case exportWait w of
        Some e \<Rightarrow> (res, Some (DockerExportFailed e))
      | None \<Rightarrow> (res, None))))))))"

text \<open>The result a tool runner stores: timeout before failed before ok.\<close>

definition tool_result :: "string \<Rightarrow> tool_run \<Rightarrow> string \<Rightarrow> string \<Rightarrow> ToolResult" where
  "tool_result name t errText outputFile =
     (let result = \<lparr>ToolResult.Name = name, Version = toolVersion t, Status = [],
                     Error = [], OutputFile = []\<rparr>
      in if deadlineExceeded t then result\<lparr>Status := ''timeout'', Error := ''scan timed out''\<rparr>
         else if runErr t \<noteq> None then result\<lparr>Status := ''failed'', Error := errText\<rparr>
         else result\<lparr>Status := ''ok'', OutputFile := outputFile\<rparr>)"

definition runTrivy :: "world \<Rightarrow> string \<Rightarrow> ScanResult \<Rightarrow> ScanResult" where
  "runTrivy w workDir res =
     (let outputFile = Join [workDir, ''trivy.json''];
          result = tool_result ''trivy'' (trivy w) (combinedOutput (trivy w)) outputFile
      in res\<lparr>Tools := AList.update ''trivy'' result (Tools res)\<rparr>)"

definition runMalcontent :: "world \<Rightarrow> string \<Rightarrow> ScanResult \<Rightarrow> ScanResult" where
  "runMalcontent w workDir res =
     (let outputFile = Join [workDir, ''malcontent.json''];
          result = tool_result ''malcontent'' (malcontent w) (combinedOutput (malcontent w)) outputFile
      in res\<lparr>Tools := AList.update ''malcontent'' result (Tools res)\<rparr>)"

text \<open>
  \<open>runMagika\<close> returns early, without storing a result, when its output file cannot
  be created. Its error text is the error followed by what the tool wrote to standard
  error.
\<close>

definition runMagika :: "world \<Rightarrow> string \<Rightarrow> ScanResult \<Rightarrow> ScanResult" where
  "runMagika w workDir res =
     (let outputFile = Join [workDir, ''magika.json'']
      in case magikaCreate w of
           Some e \<Rightarrow> res
         | None \<Rightarrow>
             (let errText = (case runErr (magika w) of None \<Rightarrow> [] | Some e \<Rightarrow> e)
                              @ CHR 0x0A # combinedOutput (magika w);
                  result = tool_result ''magika'' (magika w) errText outputFile
              in res\<lparr>Tools := AList.update ''magika'' result (Tools res)\<rparr>))"

definition run_tools :: "world \<Rightarrow> ScanOptions \<Rightarrow> string \<Rightarrow> ScanResult \<Rightarrow> ScanResult" where
  "run_tools w opts workDir res =
     (let res = (if \<not> SkipTrivy opts then runTrivy w workDir res else res);
          res = (if \<not> SkipMalcontent opts then runMalcontent w workDir res else res);
          res = (if \<not> SkipMagika opts then runMagika w workDir res else res)
      in res)"

definition Run :: "world \<Rightarrow> ScanOptions \<Rightarrow> ScanResult \<times> run_error option" where
  "Run w opts0 =
     (let (opts, res) = New opts0
      in case mkdirTemp w of
           Inl e \<Rightarrow> (res, Some (FailedToCreateWorkDirectory e))
         | Inr workDir \<Rightarrow>
        (let rootfsDir = Join [workDir, ''rootfs'']
         in case mkdirRootfs w of
              Some e \<Rightarrow> (res, Some (FailedToCreateRootfsDirectory e))
            | None \<Rightarrow>
        (case pullAndExtract w rootfsDir res of
           (res, Some e) \<Rightarrow> (res, Some (FailedToPullExtract e))
         | (res, None) \<Rightarrow>
        (let res = run_tools w opts workDir res;
             res = calculateScore res
         in case mkdirReport w of
              Some e \<Rightarrow> (res, Some (FailedToGenerateReport e))
            | None \<Rightarrow>
                if ScanStatus res = ''FAIL''
                then (res, Some (ScanCompletedWithFAIL (Total (ScanScore res))))
                else (res, None)))))"


section \<open>Example scans\<close>

definition tool_ok :: tool_run where
  "tool_ok = \<lparr>deadlineExceeded = False, runErr = None, combinedOutput = [],
               toolVersion = ''unknown''\<rparr>"

definition tool_failed :: tool_run where
  "tool_failed = tool_ok\<lparr>runErr := Some ''exit status 1''\<rparr>"

definition tool_timeout :: tool_run where
  "tool_timeout = tool_ok\<lparr>deadlineExceeded := True, runErr := Some ''signal: killed''\<rparr>"

text \<open>A world in which every step of the pipeline succeeds and the image is empty.\<close>

definition world_ok :: world where
  "world_ok =
     \<lparr>mkdirTemp = Inr ''/tmp/vnaiscan-1'', mkdirRootfs = None, dockerPull = None,
      dockerInspect = Inr ''sha256:0'', dockerCreate = Inr ''c0'', stdoutPipe = None,
      exportStart = None, exportStream = [], exportWait = None,
      extractHost = \<lparr>files = [''/tmp/vnaiscan-1/rootfs'' \<mapsto> Directory mode_0755],
                      umask = 18, cwd = None\<rparr>,
      trivy = tool_ok, malcontent = tool_ok, magikaCreate = None, magika = tool_ok,
      reported = \<lparr>Trivy = None, Malcontent = None, Magika = None\<rparr>,
      mkdirReport = None\<rparr>"

definition opts_all :: ScanOptions where
  "opts_all =
     \<lparr>OptImageRef = ''alpine:latest'', OptPlatform = ''linux/amd64'', OutputFormat = ''table'',
      ReportDir = [], TimeoutMins = 30, SkipTrivy = False, SkipMalcontent = False,
      SkipMagika = False, Quiet = False, Verbose = False\<rparr>"

text \<open>Trivy reports one critical and two high vulnerabilities; all tools end ok.\<close>

definition world_findings :: world where
  "world_findings =
     world_ok\<lparr>reported :=
       \<lparr>Trivy = Some \<lparr>Vulnerabilities = \<lparr>Critical = 1, High = 2, Medium = 0, Low = 0\<rparr>,
                      Secrets = 0, Misconfigs = 0\<rparr>,
        Malcontent = Some \<lparr>MalcontentTotal = 0, HighRisk = 0, MediumRisk = 0, LowRisk = 0,
                           Capabilities = []\<rparr>,
        Magika = Some \<lparr>TotalFiles = 0, SuspiciousTypes = 0, MismatchedExtension = 0\<rparr>\<rparr>\<rparr>"

text \<open>All three tools fail.\<close>

definition world_all_failed :: world where
  "world_all_failed =
     world_ok\<lparr>trivy := tool_failed, malcontent := tool_failed, magika := tool_failed\<rparr>"

text \<open>Trivy ends ok, Malcontent runs into its deadline, Magika is skipped.\<close>

definition world_one_timeout :: world where
  "world_one_timeout = world_ok\<lparr>malcontent := tool_timeout\<rparr>"

definition opts_no_magika :: ScanOptions where
  "opts_no_magika = opts_all\<lparr>SkipMagika := True\<rparr>"

text \<open>Only Magika is enabled, and its output file cannot be created.\<close>

definition opts_only_magika :: ScanOptions where
  "opts_only_magika = opts_all\<lparr>SkipTrivy := True, SkipMalcontent := True\<rparr>"

definition world_magika_uncreatable :: world where
  "world_magika_uncreatable = world_ok\<lparr>magikaCreate := Some ENOENT\<rparr>"

text \<open>All three tools fail and the report directory cannot be made.\<close>

definition world_all_failed_no_report :: world where
  "world_all_failed_no_report = world_all_failed\<lparr>mkdirReport := Some ENOTDIR\<rparr>"

section \<open>Notions used in the proofs\<close>

definition dropped :: "string \<Rightarrow> Header \<Rightarrow> bool" where
  "dropped dstDir header =
     (isl (sanitizePath (Name header) dstDir) \<or> (Typeflag header \<noteq> TypeDir \<and> Typeflag header \<noteq> TypeReg))"

text \<open>One entry of the stream: what the loop body does before it goes on.\<close>

definition entry_step :: "string \<Rightarrow> host \<Rightarrow> Header \<Rightarrow> body \<Rightarrow> host \<times> error option" where
  "entry_step dstDir h header tr =
     (case sanitizePath (Name header) dstDir of
        Inl err \<Rightarrow> (h, None)
      | Inr cleanPath \<Rightarrow>
          if Typeflag header = TypeDir then
            (case MkdirAll h cleanPath mode_0755 of
               (h1, Some e) \<Rightarrow> (h1, Some (FailedToCreateDirectory cleanPath e))
             | (h1, None) \<Rightarrow> (h1, None))
          else if Typeflag header = TypeReg then
            (case extractFile h tr cleanPath (Mode header) of
               (h1, Some e) \<Rightarrow> (h1, Some (FailedToExtractFile cleanPath e))
             | (h1, None) \<Rightarrow> (h1, None))
          else (h, None))"

text \<open>Example archives, extracted into the existing directory \<open>/r\<close>.\<close>

definition host_root :: host where
  "host_root = \<lparr>files = [''/'' \<mapsto> Directory mode_0755, ''/r'' \<mapsto> Directory mode_0755],
                 umask = 18, cwd = Some ''/''\<rparr>"

definition header_of :: "string \<Rightarrow> byte \<Rightarrow> Header" where
  "header_of name t = \<lparr>Name = name, Linkname = [], Typeflag = t, Mode = 420\<rparr>"

definition body_of :: "byte list \<Rightarrow> body" where
  "body_of bs = \<lparr>bytes = bs, failure = None\<rparr>"

definition symlink_l :: item where
  "symlink_l = Entry ((header_of ''l'' TypeSymlink)\<lparr>Linkname := ''/etc/passwd''\<rparr>) (body_of [])"

definition file_a :: item where
  "file_a = Entry (header_of ''a'' TypeReg) (body_of [1, 2, 3])"

definition global_header :: item where
  "global_header = Entry (header_of ''pax_global_header'' 103) (body_of [1, 2])"


section \<open>Properties of the risk aggregation\<close>

lemma count_tools_eq:
  "count_tools ts (a, b, p) =
     (a + length (filter (\<lambda>t. Status (snd t) = ''ok'') ts),
      b + length (filter (\<lambda>t. Status (snd t) \<noteq> ''ok'' \<and>
            (Status (snd t) = ''failed'' \<or> Status (snd t) = ''timeout'')) ts),
      p \<or> (\<exists>t \<in> set ts. Status (snd t) = ''failed'' \<or> Status (snd t) = ''timeout''))"
proof (induction ts arbitrary: a b p)
  case Nil
  show ?case by simp
next
  case (Cons x ts)
  obtain n t where x: "x = (n, t)" by (cases x)
  show ?case unfolding x by (simp add: Cons.IH)
qed

lemma calculateScore_Total: "Total (ScanScore (calculateScore r)) = 0"
  by (simp add: calculateScore_def Let_def count_tools_eq)

lemma calculateScore_Tools: "Tools (calculateScore r) = Tools r"
  by (simp add: calculateScore_def Let_def count_tools_eq)

lemma calculateScore_Partial:
  "Partial (calculateScore r) \<longleftrightarrow>
     Partial r \<or> (\<exists>t \<in> set (Tools r). Status (snd t) = ''failed'' \<or> Status (snd t) = ''timeout'')"
  by (simp add: calculateScore_def Let_def count_tools_eq)

lemma calculateScore_ScanStatus:
  "ScanStatus (calculateScore r) =
     (if Tools r \<noteq> [] \<and> (\<forall>t \<in> set (Tools r). Status (snd t) \<noteq> ''ok'') then ''ERROR''
      else if Partial r \<or>
              (\<exists>t \<in> set (Tools r). Status (snd t) = ''failed'' \<or> Status (snd t) = ''timeout'')
        then ''WARN'' else ''PASS'')"
  by (simp add: calculateScore_def Let_def count_tools_eq filter_empty_conv)

lemma pullAndExtract_keeps:
  "Partial (fst (pullAndExtract w d r)) = Partial r \<and> Tools (fst (pullAndExtract w d r)) = Tools r"
  by (simp add: pullAndExtract_def Let_def split: option.split sum.split prod.split)

lemma run_tools_Partial: "Partial (run_tools w opts wd r) = Partial r"
  by (simp add: run_tools_def runTrivy_def runMalcontent_def runMagika_def Let_def
      split: option.split)

lemma New_fresh: "Partial (snd (New opts)) = False \<and> Tools (snd (New opts)) = []"
  by (simp add: New_def Let_def)

lemma Run_completed:
  assumes "mkdirTemp w = Inr workDir" and "mkdirRootfs w = None"
    and "snd (pullAndExtract w (Join [workDir, ''rootfs'']) (snd (New opts))) = None"
  shows "fst (Run w opts) =
           calculateScore (run_tools w (fst (New opts)) workDir
             (fst (pullAndExtract w (Join [workDir, ''rootfs'']) (snd (New opts)))))"
  using assms
  by (cases "New opts"; cases "pullAndExtract w (Join [workDir, ''rootfs'']) (snd (New opts))")
     (simp add: Run_def Let_def split: option.split)

lemma Run_completed_err:
  assumes "mkdirTemp w = Inr workDir" and "mkdirRootfs w = None"
    and "snd (pullAndExtract w (Join [workDir, ''rootfs'']) (snd (New opts))) = None"
  shows "snd (Run w opts) =
           (case mkdirReport w of
              Some e \<Rightarrow> Some (FailedToGenerateReport e)
            | None \<Rightarrow>
                if ScanStatus (fst (Run w opts)) = ''FAIL''
                then Some (ScanCompletedWithFAIL (Total (ScanScore (fst (Run w opts)))))
                else None)"
proof -
  obtain o1 r1 where n: "New opts = (o1, r1)" by (cases "New opts")
  obtain r2 where p: "pullAndExtract w (Join [workDir, ''rootfs'']) r1 = (r2, None)"
    using assms(3) n by (cases "pullAndExtract w (Join [workDir, ''rootfs'']) r1") simp
  show ?thesis
    using assms(1,2) n p
    by (simp add: Run_def Let_def split: option.split)
qed

lemma calculateScore_ERROR:
  assumes "Tools r \<noteq> []" and "\<forall>t \<in> set (Tools r). Status (snd t) \<noteq> ''ok''"
  shows "ScanStatus (calculateScore r) = ''ERROR''"
proof -
  have "filter (\<lambda>t. Status (snd t) = ''ok'') (Tools r) = []"
    using assms(2) by (simp add: filter_empty_conv)
  then show ?thesis
    using assms(1) by (simp add: calculateScore_def Let_def count_tools_eq)
qed

lemmas eval_path = Join_def Clean_def IsAbs_def HasPrefix_def elements_def

lemmas eval_worlds =
  world_ok_def world_findings_def world_all_failed_def world_one_timeout_def
  world_magika_uncreatable_def world_all_failed_no_report_def
  tool_ok_def tool_failed_def tool_timeout_def opts_all_def opts_no_magika_def
  opts_only_magika_def

lemmas eval_Run =
  Run_def New_def pullAndExtract_def SafeExtract_def Abs_def run_tools_def runTrivy_def
  runMalcontent_def runMagika_def tool_result_def calculateScore_def calculateGrade_def


text \<open>
  Claim C2 (the code departs from it). For a scan in which all enabled tools end ok,
  \<open>Score.Total\<close> should be the sum of the points of the scoring table over the tools'
  findings. \<open>calculateScore\<close> never reads any findings: in the scan below Trivy reports
  one critical and two high vulnerabilities, worth 20 points, all three tools end ok,
  and the total is 0 with grade A.
\<close>

theorem Run_ignores_findings:
  "map (\<lambda>t. Status (snd t)) (Tools (fst (Run world_findings opts_all))) = [''ok'', ''ok'', ''ok''] \<and>
   table_score (reported world_findings) = 20 \<and>
   Total (ScanScore (fst (Run world_findings opts_all))) = 0 \<and>
   Grade (ScanScore (fst (Run world_findings opts_all))) = ''A''"
  by (simp add: eval_Run eval_worlds eval_path table_score_def)

text \<open>
  Claim C3 (the code departs from it). The status should be ERROR when at least one tool
  was enabled and none reached ok. \<open>calculateScore\<close> takes the number of results in the
  map for the number of enabled tools, and \<open>runMagika\<close> returns without storing a
  result when its output file cannot be created (the other two runners always store
  one). In the scan below only Magika is enabled and its output file cannot be created:
  one tool is enabled, none reached ok, the map is empty, and the scan ends with status
  PASS, exit code 0 and no error.
\<close>

theorem Run_magika_only_uncreatable:
  "\<not> SkipMagika opts_only_magika \<and> SkipTrivy opts_only_magika \<and> SkipMalcontent opts_only_magika \<and>
   magikaCreate world_magika_uncreatable = Some ENOENT \<and>
   Tools (fst (Run world_magika_uncreatable opts_only_magika)) = [] \<and>
   ScanStatus (fst (Run world_magika_uncreatable opts_only_magika)) = ''PASS'' \<and>
   ExitCode (fst (Run world_magika_uncreatable opts_only_magika)) = 0 \<and>
   snd (Run world_magika_uncreatable opts_only_magika) = None"
  by (simp add: eval_Run eval_worlds eval_path ExitCode_def)

text \<open>
  Claim C6, as stated, fails: when all three tools fail, the status is ERROR and \<open>Run\<close>
  returns no error.
\<close>

theorem Run_all_failed_counterexample:
  "map (\<lambda>t. Status (snd t)) (Tools (fst (Run world_all_failed opts_all)))
     = [''failed'', ''failed'', ''failed''] \<and>
   ScanStatus (fst (Run world_all_failed opts_all)) = ''ERROR'' \<and>
   snd (Run world_all_failed opts_all) = None"
  by (simp add: eval_Run eval_worlds eval_path)

text \<open>
  Claim C6, amended. \<open>Run\<close> returns an error exactly when the work directory or the
  rootfs directory cannot be created, image acquisition or extraction fails, the report
  directory cannot be created, or the overall status is FAIL. That every tool ended in a
  non-ok status is not a cause of its own: when all of those steps succeed, at least one
  tool result was stored and none of the stored results is ok, the status is ERROR,
  \<open>ExitCode\<close> is 3 and \<open>Run\<close> returns no error.
\<close>

theorem Run_error_causes:
  "(snd (Run w opts) \<noteq> None \<longleftrightarrow>
      (case mkdirTemp w of
         Inl e \<Rightarrow> True
       | Inr workDir \<Rightarrow>
           mkdirRootfs w \<noteq> None \<or>
           snd (pullAndExtract w (Join [workDir, ''rootfs'']) (snd (New opts))) \<noteq> None \<or>
           mkdirReport w \<noteq> None \<or>
           ScanStatus (fst (Run w opts)) = ''FAIL''))
   \<and> (\<forall>workDir.
         mkdirTemp w = Inr workDir \<and> mkdirRootfs w = None \<and>
         snd (pullAndExtract w (Join [workDir, ''rootfs'']) (snd (New opts))) = None \<and>
         mkdirReport w = None \<and>
         Tools (fst (Run w opts)) \<noteq> [] \<and>
         (\<forall>t \<in> set (Tools (fst (Run w opts))). Status (snd t) \<noteq> ''ok'')
         \<longrightarrow> ScanStatus (fst (Run w opts)) = ''ERROR'' \<and> ExitCode (fst (Run w opts)) = 3 \<and>
             snd (Run w opts) = None)"
proof (cases "mkdirTemp w")
  case (Inl e)
  then show ?thesis
    by (cases "New opts") (simp add: Run_def)
next
  case (Inr workDir)
  show ?thesis
  proof (cases "mkdirRootfs w \<noteq> None \<or>
      snd (pullAndExtract w (Join [workDir, ''rootfs'']) (snd (New opts))) \<noteq> None")
    case True
    then show ?thesis
      using Inr
      by (cases "New opts"; cases "pullAndExtract w (Join [workDir, ''rootfs'']) (snd (New opts))")
         (auto simp: Run_def Let_def split: option.split)
  next
    case False
    then have c: "mkdirRootfs w = None"
      "snd (pullAndExtract w (Join [workDir, ''rootfs'']) (snd (New opts))) = None"
      by simp_all
    note res = Run_completed [OF Inr c]
    note err = Run_completed_err [OF Inr c]
    have first: "snd (Run w opts) \<noteq> None \<longleftrightarrow>
        mkdirReport w \<noteq> None \<or> ScanStatus (fst (Run w opts)) = ''FAIL''"
      unfolding err by (simp split: option.split)
    have second: "ScanStatus (fst (Run w opts)) = ''ERROR'' \<and> ExitCode (fst (Run w opts)) = 3 \<and>
        snd (Run w opts) = None"
      if "mkdirReport w = None" "Tools (fst (Run w opts)) \<noteq> []"
        "\<forall>t \<in> set (Tools (fst (Run w opts))). Status (snd t) \<noteq> ''ok''"
    proof -
      have "ScanStatus (fst (Run w opts)) = ''ERROR''"
        using that(2,3) unfolding res by (simp add: calculateScore_ERROR calculateScore_Tools)
      then show ?thesis using that(1) by (simp add: err ExitCode_def)
    qed
    show ?thesis using Inr c first second by auto
  qed
qed

theorem Run_error_causes_witness:
  "mkdirTemp world_all_failed = Inr ''/tmp/vnaiscan-1'' \<and>
   mkdirRootfs world_all_failed = None \<and>
   snd (pullAndExtract world_all_failed (Join [''/tmp/vnaiscan-1'', ''rootfs''])
          (snd (New opts_all))) = None \<and>
   mkdirReport world_all_failed = None \<and>
   map (\<lambda>t. Status (snd t)) (Tools (fst (Run world_all_failed opts_all)))
     = [''failed'', ''failed'', ''failed''] \<and>
   ScanStatus (fst (Run world_all_failed opts_all)) = ''ERROR'' \<and>
   ExitCode (fst (Run world_all_failed opts_all)) = 3 \<and>
   snd (Run world_all_failed opts_all) = None"
proof -
  define res where "res = fst (Run world_all_failed opts_all)"
  have h1: "mkdirTemp world_all_failed = Inr ''/tmp/vnaiscan-1''"
    and h2: "mkdirRootfs world_all_failed = None"
    and h4: "mkdirReport world_all_failed = None"
    by (simp_all add: eval_worlds)
  have h3: "snd (pullAndExtract world_all_failed (Join [''/tmp/vnaiscan-1'', ''rootfs''])
                   (snd (New opts_all))) = None"
    by (simp add: eval_Run eval_worlds eval_path)
  have t: "map (\<lambda>t. Status (snd t)) (Tools res) = [''failed'', ''failed'', ''failed'']"
    unfolding res_def by (simp add: eval_Run eval_worlds eval_path)
  have ne: "Tools res \<noteq> []"
  proof
    assume "Tools res = []"
    with t show False by simp
  qed
  have nok: "\<forall>t \<in> set (Tools res). Status (snd t) \<noteq> ''ok''"
  proof
    fix x assume "x \<in> set (Tools res)"
    then have "Status (snd x) \<in> set (map (\<lambda>t. Status (snd t)) (Tools res))"
      by auto
    then show "Status (snd x) \<noteq> ''ok''" unfolding t by simp
  qed
  have all: "mkdirTemp world_all_failed = Inr ''/tmp/vnaiscan-1'' \<and>
      mkdirRootfs world_all_failed = None \<and>
      snd (pullAndExtract world_all_failed (Join [''/tmp/vnaiscan-1'', ''rootfs''])
             (snd (New opts_all))) = None \<and>
      mkdirReport world_all_failed = None \<and>
      Tools (fst (Run world_all_failed opts_all)) \<noteq> [] \<and>
      (\<forall>t \<in> set (Tools (fst (Run world_all_failed opts_all))). Status (snd t) \<noteq> ''ok'')"
    using h1 h2 h3 h4 ne nok unfolding res_def by (intro conjI)
  have "ScanStatus (fst (Run world_all_failed opts_all)) = ''ERROR'' \<and>
        ExitCode (fst (Run world_all_failed opts_all)) = 3 \<and>
        snd (Run world_all_failed opts_all) = None"
    by (rule mp [OF spec [OF conjunct2 [OF Run_error_causes [of world_all_failed opts_all]]] all])
  then show ?thesis using h1 h2 h3 h4 t unfolding res_def by (intro conjI) simp_all
qed

text \<open>
  Claim C7. For every scan that reaches the aggregation, the Partial flag is true if and
  only if some tool in the map has status failed or timeout; in particular, when one
  tool is ok and another timed out, the result is partial and its status is WARN at a
  total of 0.
\<close>

theorem Run_Partial:
  assumes "mkdirTemp w = Inr workDir" and "mkdirRootfs w = None"
    and "snd (pullAndExtract w (Join [workDir, ''rootfs'']) (snd (New opts))) = None"
  shows "(Partial (fst (Run w opts)) \<longleftrightarrow>
            (\<exists>t \<in> set (Tools (fst (Run w opts))).
               Status (snd t) = ''failed'' \<or> Status (snd t) = ''timeout''))
         \<and> ((\<exists>t \<in> set (Tools (fst (Run w opts))). Status (snd t) = ''ok'') \<and>
             (\<exists>t \<in> set (Tools (fst (Run w opts))). Status (snd t) = ''timeout'')
             \<longrightarrow> Partial (fst (Run w opts)) \<and> ScanStatus (fst (Run w opts)) = ''WARN'' \<and>
                 Total (ScanScore (fst (Run w opts))) = 0)"
  using Run_completed [OF assms]
  by (auto simp: calculateScore_Partial calculateScore_Tools calculateScore_ScanStatus
      calculateScore_Total run_tools_Partial pullAndExtract_keeps New_fresh)

theorem Run_Partial_witness:
  "mkdirTemp world_one_timeout = Inr ''/tmp/vnaiscan-1'' \<and>
   mkdirRootfs world_one_timeout = None \<and>
   snd (pullAndExtract world_one_timeout (Join [''/tmp/vnaiscan-1'', ''rootfs''])
          (snd (New opts_no_magika))) = None \<and>
   map (\<lambda>t. Status (snd t)) (Tools (fst (Run world_one_timeout opts_no_magika)))
     = [''ok'', ''timeout''] \<and>
   Partial (fst (Run world_one_timeout opts_no_magika)) \<and>
   ScanStatus (fst (Run world_one_timeout opts_no_magika)) = ''WARN'' \<and>
   Total (ScanScore (fst (Run world_one_timeout opts_no_magika))) = 0"
proof -
  have h1: "mkdirTemp world_one_timeout = Inr ''/tmp/vnaiscan-1''"
    and h2: "mkdirRootfs world_one_timeout = None"
    by (simp_all add: eval_worlds)
  have h3: "snd (pullAndExtract world_one_timeout (Join [''/tmp/vnaiscan-1'', ''rootfs''])
                   (snd (New opts_no_magika))) = None"
    by (simp add: eval_Run eval_worlds eval_path)
  have t: "map (\<lambda>t. Status (snd t)) (Tools (fst (Run world_one_timeout opts_no_magika)))
             = [''ok'', ''timeout'']"
    by (simp add: eval_Run eval_worlds eval_path)
  then have "\<exists>t \<in> set (Tools (fst (Run world_one_timeout opts_no_magika))). Status (snd t) = ''ok''"
    and "\<exists>t \<in> set (Tools (fst (Run world_one_timeout opts_no_magika))). Status (snd t) = ''timeout''"
    by (cases "Tools (fst (Run world_one_timeout opts_no_magika))"; fastforce)+
  with Run_Partial [OF h1 h2 h3] h1 h2 h3 t show ?thesis
    by blast
qed

section \<open>Properties of the extraction\<close>

lemmas type_defs =
  TypeReg_def TypeLink_def TypeSymlink_def TypeChar_def TypeBlock_def TypeDir_def TypeFifo_def

lemma extract_entries_dropped:
  assumes "dropped dstDir header"
  shows "extract_entries dstDir h None (Entry header tr # r) = extract_entries dstDir h (failure tr) r"
proof (cases "sanitizePath (Name header) dstDir")
  case (Inl a)
  then show ?thesis by simp
next
  case (Inr p)
  then have "Typeflag header \<noteq> TypeDir \<and> Typeflag header \<noteq> TypeReg"
    using assms by (simp add: dropped_def)
  then show ?thesis using Inr by simp
qed

lemma extract_entries_pending [simp]:
  "extract_entries dstDir h (Some e) r = (h, Some (FailedToReadTarHeader e))"
  by (cases r) simp_all

lemma extract_entries_step:
  "extract_entries dstDir h None (Entry header tr # r) =
     (case entry_step dstDir h header tr of
        (h1, Some e) \<Rightarrow> (h1, Some e)
      | (h1, None) \<Rightarrow> extract_entries dstDir h1 (failure tr) r)"
proof (cases "sanitizePath (Name header) dstDir")
  case (Inl a)
  then show ?thesis by (simp add: entry_step_def)
next
  case (Inr p)
  consider (d) "Typeflag header = TypeDir" | (r) "Typeflag header = TypeReg"
    | (o) "Typeflag header \<noteq> TypeDir \<and> Typeflag header \<noteq> TypeReg" by blast
  then show ?thesis
  proof cases
    case d
    then show ?thesis using Inr
      by (simp add: entry_step_def type_defs split: prod.split option.split)
  next
    case r
    then show ?thesis using Inr
      by (simp add: entry_step_def type_defs split: prod.split option.split)
  next
    case o
    then show ?thesis using Inr by (simp add: entry_step_def)
  qed
qed

lemma entry_step_dropped: "dropped dstDir header \<Longrightarrow> entry_step dstDir h header tr = (h, None)"
  by (auto simp: dropped_def entry_step_def split: sum.splits)

lemma extract_entries_Cons:
  "extract_entries dstDir h pending (x # r) =
     (case pending of
        Some e \<Rightarrow> (h, Some (FailedToReadTarHeader e))
      | None \<Rightarrow>
          (case x of
             Corrupt e \<Rightarrow> (h, Some (FailedToReadTarHeader e))
           | Entry header tr \<Rightarrow>
               (case entry_step dstDir h header tr of
                  (h1, Some e) \<Rightarrow> (h1, Some e)
                | (h1, None) \<Rightarrow> extract_entries dstDir h1 (failure tr) r)))"
proof (cases pending)
  case None
  show ?thesis
  proof (cases x)
    case (Entry header tr)
    show ?thesis unfolding None Entry extract_entries_step by simp
  next
    case (Corrupt e)
    then show ?thesis using None by simp
  qed
next
  case (Some e)
  then show ?thesis by simp
qed

lemma extract_entries_remove:
  assumes "dropped dstDir header"
  shows "extract_entries dstDir h pending (pre @ Entry header tr # post) =
           (case failure tr of
              None \<Rightarrow> extract_entries dstDir h pending (pre @ post)
            | Some e \<Rightarrow> extract_entries dstDir h pending (pre @ [Corrupt e]))"
proof (induction pre arbitrary: h pending)
  case Nil
  show ?case
  proof (cases pending)
    case None
    show ?thesis
      unfolding None append_Nil extract_entries_dropped [OF assms]
      by (cases "failure tr") simp_all
  next
    case (Some e)
    then show ?thesis by (cases "failure tr") simp_all
  qed
next
  case (Cons x pre)
  show ?case
  proof (cases pending)
    case (Some e)
    then show ?thesis by (cases "failure tr") simp_all
  next
    case None
    show ?thesis
    proof (cases x)
      case (Corrupt e)
      then show ?thesis using None by (cases "failure tr") simp_all
    next
      case (Entry hd0 tr0)
      obtain h1 e1 where s: "entry_step dstDir h hd0 tr0 = (h1, e1)"
        by (cases "entry_step dstDir h hd0 tr0")
      show ?thesis
      proof (cases e1)
        case (Some e)
        then show ?thesis
          unfolding None Entry append_Cons extract_entries_step s
          by (cases "failure tr") simp_all
      next
        case N: None
        show ?thesis
          unfolding None Entry append_Cons extract_entries_step s N
          using Cons.IH [of h1 "failure tr0"] by (cases "failure tr") simp_all
      qed
    qed
  qed
qed

lemmas eval_extract =
  SafeExtract_def Abs_def sanitizePath_def TrimPrefix_def extractFile_def Dir_def
  OpenFile_def Copy_def Chmod_def Mkdir_def maxFileSize_def MkdirAll.simps
  host_root_def header_of_def body_of_def symlink_l_def file_a_def global_header_def

lemma dropped_links_and_devices:
  "Typeflag header \<in> {TypeSymlink, TypeLink, TypeChar, TypeBlock, TypeFifo} \<Longrightarrow> dropped d header"
  by (auto simp: dropped_def type_defs)

text \<open>
  Claim C4. An entry whose type is symlink, hardlink, character device, block device or
  FIFO has no effect: extracting a stream that contains it gives the same file system
  and the same result as extracting the stream without it, so no object is created for
  it and the entries after it are processed as before. (Should the stream break off
  inside the body of the entry, the result is that of the stream breaking off there.)
\<close>

theorem SafeExtract_skips_links_and_devices:
  assumes "Typeflag header \<in> {TypeSymlink, TypeLink, TypeChar, TypeBlock, TypeFifo}"
  shows "SafeExtract h (pre @ Entry header tr # post) dstDir =
           (case failure tr of
              None \<Rightarrow> SafeExtract h (pre @ post) dstDir
            | Some e \<Rightarrow> SafeExtract h (pre @ [Corrupt e]) dstDir)"
proof (cases "Abs h dstDir")
  case (Inl e)
  then show ?thesis by (cases "failure tr") (simp_all add: SafeExtract_def)
next
  case (Inr d)
  show ?thesis
    unfolding SafeExtract_def Inr
    using extract_entries_remove [OF dropped_links_and_devices [OF assms], of d h None pre tr post]
    by (cases "failure tr") simp_all
qed

theorem SafeExtract_skips_links_and_devices_witness:
  "Typeflag ((header_of ''l'' TypeSymlink)\<lparr>Linkname := ''/etc/passwd''\<rparr>)
     \<in> {TypeSymlink, TypeLink, TypeChar, TypeBlock, TypeFifo} \<and>
   SafeExtract host_root [symlink_l, file_a] ''/r'' = SafeExtract host_root [file_a] ''/r'' \<and>
   snd (SafeExtract host_root [symlink_l, file_a] ''/r'') = None \<and>
   files (fst (SafeExtract host_root [symlink_l, file_a] ''/r'')) ''/r/l'' = None \<and>
   files (fst (SafeExtract host_root [symlink_l, file_a] ''/r'')) ''/r/a''
     = Some (RegularFile [1, 2, 3] 420)"
proof -
  have t: "Typeflag ((header_of ''l'' TypeSymlink)\<lparr>Linkname := ''/etc/passwd''\<rparr>)
             \<in> {TypeSymlink, TypeLink, TypeChar, TypeBlock, TypeFifo}"
    by (simp add: header_of_def)
  have eq: "SafeExtract host_root [symlink_l, file_a] ''/r'' = SafeExtract host_root [file_a] ''/r''"
    using SafeExtract_skips_links_and_devices [OF t, of host_root "[]" "body_of []" "[file_a]" "''/r''"]
    by (simp add: symlink_l_def body_of_def)
  have r: "snd (SafeExtract host_root [file_a] ''/r'') = None \<and>
      files (fst (SafeExtract host_root [file_a] ''/r'')) ''/r/l'' = None \<and>
      files (fst (SafeExtract host_root [file_a] ''/r'')) ''/r/a'' = Some (RegularFile [1, 2, 3] 420)"
    by (simp add: eval_extract eval_path type_defs)
  show ?thesis using t r unfolding eq by (intro conjI) simp_all
qed

lemma dropped_other_types:
  "Typeflag header \<notin> {TypeReg, TypeDir, TypeSymlink, TypeLink, TypeChar, TypeBlock, TypeFifo}
   \<Longrightarrow> dropped d header"
  by (simp add: dropped_def)

text \<open>
  Claim C10. An entry whose type flag is none of regular file, directory, symlink,
  hardlink, character device, block device or FIFO has no effect either: no object is
  created for it, no error is reported for it, and extraction goes on with the next
  entry, exactly as if the entry were not in the stream. (Should the stream break off
  inside the body of the entry, the result is that of the stream breaking off there.)
\<close>

theorem SafeExtract_skips_other_types:
  assumes "Typeflag header \<notin> {TypeReg, TypeDir, TypeSymlink, TypeLink, TypeChar, TypeBlock, TypeFifo}"
  shows "SafeExtract h (pre @ Entry header tr # post) dstDir =
           (case failure tr of
              None \<Rightarrow> SafeExtract h (pre @ post) dstDir
            | Some e \<Rightarrow> SafeExtract h (pre @ [Corrupt e]) dstDir)"
proof (cases "Abs h dstDir")
  case (Inl e)
  then show ?thesis by (cases "failure tr") (simp_all add: SafeExtract_def)
next
  case (Inr d)
  show ?thesis
    unfolding SafeExtract_def Inr
    using extract_entries_remove [OF dropped_other_types [OF assms], of d h None pre tr post]
    by (cases "failure tr") simp_all
qed

theorem SafeExtract_skips_other_types_witness:
  "Typeflag (header_of ''pax_global_header'' 103)
     \<notin> {TypeReg, TypeDir, TypeSymlink, TypeLink, TypeChar, TypeBlock, TypeFifo} \<and>
   SafeExtract host_root [global_header, file_a] ''/r'' = SafeExtract host_root [file_a] ''/r'' \<and>
   snd (SafeExtract host_root [global_header, file_a] ''/r'') = None \<and>
   files (fst (SafeExtract host_root [global_header, file_a] ''/r'')) ''/r/pax_global_header'' = None \<and>
   files (fst (SafeExtract host_root [global_header, file_a] ''/r'')) ''/r/a''
     = Some (RegularFile [1, 2, 3] 420)"
proof -
  have t: "Typeflag (header_of ''pax_global_header'' 103)
             \<notin> {TypeReg, TypeDir, TypeSymlink, TypeLink, TypeChar, TypeBlock, TypeFifo}"
    by (simp add: header_of_def type_defs)
  have eq: "SafeExtract host_root [global_header, file_a] ''/r'' = SafeExtract host_root [file_a] ''/r''"
    using SafeExtract_skips_other_types [OF t, of host_root "[]" "body_of [1, 2]" "[file_a]" "''/r''"]
    by (simp add: global_header_def body_of_def)
  have r: "snd (SafeExtract host_root [file_a] ''/r'') = None \<and>
      files (fst (SafeExtract host_root [file_a] ''/r'')) ''/r/pax_global_header'' = None \<and>
      files (fst (SafeExtract host_root [file_a] ''/r'')) ''/r/a'' = Some (RegularFile [1, 2, 3] 420)"
    by (simp add: eval_extract eval_path type_defs)
  show ?thesis using t r unfolding eq by (intro conjI) simp_all
qed

end
